theory Spec2Isabelle
  imports Main
begin

section \<open>A task-management API: shallow embedding of \<^verbatim>\<open>main.py\<close>\<close>

text \<open>
  The program is a set of request handlers over three collaborators: a document
  database with the collections \<^verbatim>\<open>users\<close> and \<^verbatim>\<open>tasks\<close>, a key-value cache
  with expiring entries, and libraries for password hashing, token signing and JSON.
  Each handler becomes a function from the state of the collaborators (and the inputs
  the handler reads from its environment: the clock, the salt of the password hash) to
  the new state and the handler's outcome. A raised \<^verbatim>\<open>HTTPException\<close> is the
  \<open>Inl\<close> branch of the outcome.

  Strings are \<^typ>\<open>string\<close>; a character stands for the code point of the same
  number, so the model's strings are the Python strings over Latin-1. The one string
  of the program with characters beyond Latin-1, the greeting of \<^verbatim>\<open>root\<close>, holds
  them as their UTF-8 bytes.
\<close>

subsection \<open>Text helpers\<close>

text \<open>
  Numbers in base 10 and 16. \<open>digits\<close> asks \<open>digit_char\<close> for digits below the
  base only, and is used with the bases 10 and 16.
\<close>

definition digit_char :: "nat \<Rightarrow> char" where
  "digit_char d = ''0123456789abcdef'' ! d"

fun digits :: "nat \<Rightarrow> nat \<Rightarrow> string" where
  "digits b n =
     (if b < 2 \<or> n < b then [digit_char n]
      else digits b (n div b) @ [digit_char (n mod b)])"

declare digits.simps [simp del]

definition zfill :: "nat \<Rightarrow> string \<Rightarrow> string" where
  "zfill w s = replicate (w - length s) CHR ''0'' @ s"

fun join :: "string \<Rightarrow> string list \<Rightarrow> string" where
  "join sep [] = []"
| "join sep [x] = x"
| "join sep (x # y # ys) = x @ sep @ join sep (y # ys)"

subsection \<open>Dates\<close>

text \<open>
  A \<^verbatim>\<open>datetime\<close> value with its fields. \<^verbatim>\<open>isoformat()\<close> prints
  \<^verbatim>\<open>YYYY-MM-DDTHH:MM:SS\<close> and appends the six-digit microseconds when they are not zero.
  The database keeps dates in milliseconds, so a stored date loses the last three digits
  of its microseconds.
\<close>

record datetime =
  year :: nat
  month :: nat
  day :: nat
  hour :: nat
  minute :: nat
  second :: nat
  microsecond :: nat

definition isoformat_sep :: "char \<Rightarrow> datetime \<Rightarrow> string" where
  "isoformat_sep sep dt =
     zfill 4 (digits 10 (year dt)) @ ''-'' @ zfill 2 (digits 10 (month dt)) @ ''-'' @
     zfill 2 (digits 10 (day dt)) @ [sep] @
     zfill 2 (digits 10 (hour dt)) @ '':'' @ zfill 2 (digits 10 (minute dt)) @ '':'' @
     zfill 2 (digits 10 (second dt)) @
     (if microsecond dt = 0 then [] else ''.'' @ zfill 6 (digits 10 (microsecond dt)))"

definition isoformat :: "datetime \<Rightarrow> string" where
  "isoformat dt = isoformat_sep CHR ''T'' dt"

definition bson_date :: "datetime \<Rightarrow> datetime" where
  "bson_date dt = dt\<lparr>microsecond := (microsecond dt div 1000) * 1000\<rparr>"

subsection \<open>JSON values and \<^verbatim>\<open>json.dumps\<close>\<close>

datatype json =
    JNull
  | JBool bool
  | JInt int
  | JString string
  | JArray "json list"
  | JObject "(string \<times> json) list"

text \<open>
  \<^verbatim>\<open>json.dumps\<close> with its defaults: \<^verbatim>\<open>ensure_ascii\<close>, and the separators
  \<^verbatim>\<open>", "\<close> and \<^verbatim>\<open>": "\<close>. A character outside the printable ASCII range is written as
  an escape.
\<close>

definition json_escape :: "char \<Rightarrow> string" where
  "json_escape c =
     (if c = CHR 0x22 then [CHR 0x5C, CHR 0x22]
      else if c = CHR 0x5C then [CHR 0x5C, CHR 0x5C]
      else if c = CHR 0x0A then [CHR 0x5C, CHR ''n'']
      else if c = CHR 0x0D then [CHR 0x5C, CHR ''r'']
      else if c = CHR 0x09 then [CHR 0x5C, CHR ''t'']
      else if c = CHR 0x08 then [CHR 0x5C, CHR ''b'']
      else if c = CHR 0x0C then [CHR 0x5C, CHR ''f'']
      else if (of_char c :: nat) < 32 \<or> 126 < (of_char c :: nat)
        then [CHR 0x5C, CHR ''u''] @ zfill 4 (digits 16 (of_char c))
      else [c])"

definition json_string :: "string \<Rightarrow> string" where
  "json_string s = [CHR 0x22] @ concat (map json_escape s) @ [CHR 0x22]"

fun json_dumps :: "json \<Rightarrow> string" where
  "json_dumps JNull = ''null''"
| "json_dumps (JBool b) = (if b then ''true'' else ''false'')"
| "json_dumps (JInt i) = (if i < 0 then ''-'' else []) @ digits 10 (nat \<bar>i\<bar>)"
| "json_dumps (JString s) = json_string s"
| "json_dumps (JArray xs) = ''['' @ join '', '' (map json_dumps xs) @ '']''"
| "json_dumps (JObject kvs) =
     ''{'' @ join '', '' (map (\<lambda>(k, v). json_string k @ '': '' @ json_dumps v) kvs) @ ''}''"

subsection \<open>The schema classes\<close>

datatype StatusEnum = pending | completed

datatype PriorityEnum = low | medium | high

fun status_value :: "StatusEnum \<Rightarrow> string" where
  "status_value pending = ''pending''"
| "status_value completed = ''completed''"

fun priority_value :: "PriorityEnum \<Rightarrow> string" where
  "priority_value low = ''low''"
| "priority_value medium = ''medium''"
| "priority_value high = ''high''"

record User =
  username :: string
  password :: string

record TaskSchema =
  title :: string
  description :: "string option"
  status :: StatusEnum
  priority :: PriorityEnum

subsection \<open>The document database\<close>

text \<open>
  The values a query compares. The database compares values of different types as
  different: a string never equals an ObjectId, whatever its text. An ObjectId is
  twelve bytes, here the number they spell; its \<^verbatim>\<open>str\<close> is 24 hexadecimal digits.
\<close>

datatype bson = BObjectId nat | BString string | BNull | BDate datetime

fun py_str :: "bson \<Rightarrow> string" where
  "py_str (BObjectId n) = zfill 24 (digits 16 n)"
| "py_str (BString s) = s"
| "py_str BNull = ''None''"
| "py_str (BDate dt) = isoformat_sep CHR '' '' dt"

text \<open>
  A document of \<^verbatim>\<open>tasks\<close> is the dictionary \<^verbatim>\<open>create_task\<close> inserts: the fields
  of the schema, \<^verbatim>\<open>created_at\<close> and the \<^verbatim>\<open>_id\<close> the driver adds. A document of
  \<^verbatim>\<open>users\<close> is a \<^verbatim>\<open>User\<close> with its \<^verbatim>\<open>_id\<close>.
\<close>

record task_doc = TaskSchema +
  t_id :: bson
  created_at :: datetime

record user_doc = User +
  u_id :: bson

type_synonym query = "(string \<times> bson) list"

definition task_field :: "task_doc \<Rightarrow> string \<Rightarrow> bson option" where
  "task_field d k =
     (if k = ''_id'' then Some (t_id d)
      else if k = ''title'' then Some (BString (title d))
      else if k = ''description'' then
        Some (case description d of None \<Rightarrow> BNull | Some x \<Rightarrow> BString x)
      else if k = ''status'' then Some (BString (status_value (status d)))
      else if k = ''priority'' then Some (BString (priority_value (priority d)))
      else if k = ''created_at'' then Some (BDate (created_at d))
      else None)"

definition user_field :: "user_doc \<Rightarrow> string \<Rightarrow> bson option" where
  "user_field d k =
     (if k = ''_id'' then Some (u_id d)
      else if k = ''username'' then Some (BString (username d))
      else if k = ''password'' then Some (BString (password d))
      else None)"

text \<open>A document matches a query when each field of the query equals the document's.\<close>

definition matches :: "('d \<Rightarrow> string \<Rightarrow> bson option) \<Rightarrow> query \<Rightarrow> 'd \<Rightarrow> bool" where
  "matches field q d = list_all (\<lambda>(k, v). field d k = Some v) q"

definition find :: "('d \<Rightarrow> string \<Rightarrow> bson option) \<Rightarrow> 'd list \<Rightarrow> query \<Rightarrow> 'd list" where
  "find field coll q = filter (matches field q) coll"

definition to_list :: "'d list \<Rightarrow> nat \<Rightarrow> 'd list" where
  "to_list cursor n = take n cursor"

definition find_one :: "('d \<Rightarrow> string \<Rightarrow> bson option) \<Rightarrow> 'd list \<Rightarrow> query \<Rightarrow> 'd option" where
  "find_one field coll q = List.find (matches field q) coll"

record UpdateResult =
  matched_count :: nat
  modified_count :: nat

text \<open>
  \<^verbatim>\<open>update_one\<close> changes the first document that matches. A document that already
  has the new values is matched and not modified.
\<close>

fun update_one ::
  "('d \<Rightarrow> string \<Rightarrow> bson option) \<Rightarrow> 'd list \<Rightarrow> query \<Rightarrow> ('d \<Rightarrow> 'd) \<Rightarrow> 'd list \<times> UpdateResult"
where
  "update_one field [] q upd = ([], \<lparr>matched_count = 0, modified_count = 0\<rparr>)"
| "update_one field (d # ds) q upd =
     (if matches field q d
      then (upd d # ds, \<lparr>matched_count = 1, modified_count = (if upd d = d then 0 else 1)\<rparr>)
      else (case update_one field ds q upd of (ds', r) \<Rightarrow> (d # ds', r)))"

fun delete_one ::
  "('d \<Rightarrow> string \<Rightarrow> bson option) \<Rightarrow> 'd list \<Rightarrow> query \<Rightarrow> 'd list \<times> nat"
where
  "delete_one field [] q = ([], 0)"
| "delete_one field (d # ds) q =
     (if matches field q d then (ds, 1)
      else (case delete_one field ds q of (ds', n) \<Rightarrow> (d # ds', n)))"

text \<open>The update document \<^verbatim>\<open>{"$set": task.dict()}\<close>: the four fields of the schema.\<close>

definition set_fields :: "TaskSchema \<Rightarrow> task_doc \<Rightarrow> task_doc" where
  "set_fields task d =
     d\<lparr>title := title task, description := description task,
       status := status task, priority := priority task\<rparr>"

subsection \<open>The cache\<close>

text \<open>
  A key holds a string and, when it was set with a time to live, the second at which
  it expires. An expired key reads as absent.
\<close>

type_synonym redis = "string \<rightharpoonup> (string \<times> nat option)"

definition redis_get :: "redis \<Rightarrow> nat \<Rightarrow> string \<Rightarrow> string option" where
  "redis_get r now k =
     (case r k of
        None \<Rightarrow> None
      | Some (v, None) \<Rightarrow> Some v
      | Some (v, Some e) \<Rightarrow> if now < e then Some v else None)"

definition redis_setex :: "redis \<Rightarrow> nat \<Rightarrow> string \<Rightarrow> nat \<Rightarrow> string \<Rightarrow> redis" where
  "redis_setex r now k ttl v = r(k \<mapsto> (v, Some (now + ttl)))"

definition redis_delete :: "redis \<Rightarrow> string \<Rightarrow> redis" where
  "redis_delete r k = r(k := None)"

subsection \<open>The state and the outcomes\<close>

text \<open>
  \<open>next_oid\<close> is the driver's source of fresh ObjectIds. \<open>Unhandled\<close> is an
  exception of a library that no handler catches.
\<close>

record state =
  users :: "user_doc list"
  tasks :: "task_doc list"
  cache :: redis
  next_oid :: nat

datatype error = HTTPException nat string | Unhandled string

definition init_state :: state where
  "init_state = \<lparr>users = [], tasks = [], cache = Map.empty, next_oid = 0\<rparr>"

subsection \<open>The task handlers\<close>

definition create_task :: "state \<Rightarrow> datetime \<Rightarrow> TaskSchema \<Rightarrow> state \<times> json" where
  "create_task s utcnow task =
     (let inserted_id = BObjectId (next_oid s);
          task_dict = \<lparr>title = title task, description = description task,
                       status = status task, priority = priority task,
                       t_id = inserted_id, created_at = bson_date utcnow\<rparr>
      in (s\<lparr>tasks := tasks s @ [task_dict], next_oid := next_oid s + 1\<rparr>,
          JObject [(''message'', JString ''Task created''),
                   (''task_id'', JString (py_str inserted_id))]))"

text \<open>
  The loop of \<^verbatim>\<open>get_tasks\<close> replaces \<^verbatim>\<open>_id\<close> and \<^verbatim>\<open>created_at\<close> of each
  document by their strings; the document is then the JSON object below.
\<close>

definition serialize_task :: "task_doc \<Rightarrow> json" where
  "serialize_task d =
     JObject [(''_id'', JString (py_str (t_id d))),
              (''title'', JString (title d)),
              (''description'', (case description d of None \<Rightarrow> JNull | Some x \<Rightarrow> JString x)),
              (''status'', JString (status_value (status d))),
              (''priority'', JString (priority_value (priority d))),
              (''created_at'', JString (isoformat (created_at d)))]"

definition build_query :: "StatusEnum option \<Rightarrow> PriorityEnum option \<Rightarrow> query" where
  "build_query status_arg priority_arg =
     (case status_arg of None \<Rightarrow> [] | Some st \<Rightarrow> [(''status'', BString (status_value st))]) @
     (case priority_arg of None \<Rightarrow> [] | Some pr \<Rightarrow> [(''priority'', BString (priority_value pr))])"

text \<open>
  \<^verbatim>\<open>if cached_tasks:\<close> is false for an absent entry and for the empty string.
  \<open>json_loads\<close> is the library's parser, \<open>None\<close> where it raises.
\<close>

definition get_tasks ::
  "(string \<Rightarrow> json option) \<Rightarrow> state \<Rightarrow> nat \<Rightarrow> StatusEnum option \<Rightarrow> PriorityEnum option
    \<Rightarrow> state \<times> (error + json)"
where
  "get_tasks json_loads s now status_arg priority_arg =
     (let cached_tasks = redis_get (cache s) now ''tasks''
      in if cached_tasks \<noteq> None \<and> cached_tasks \<noteq> Some []
         then (s, case json_loads (the cached_tasks) of
                    None \<Rightarrow> Inl (Unhandled ''JSONDecodeError'')
                  | Some v \<Rightarrow> Inr v)
         else
           (let query = build_query status_arg priority_arg;
                found = to_list (find task_field (tasks s) query) 100;
                result = JArray (map serialize_task found)
            in (s\<lparr>cache := redis_setex (cache s) now ''tasks'' 60 (json_dumps result)\<rparr>,
                Inr result)))"

definition update_task :: "state \<Rightarrow> string \<Rightarrow> TaskSchema \<Rightarrow> state \<times> (error + json)" where
  "update_task s task_id task =
     (case update_one task_field (tasks s) [(''_id'', BString task_id)] (set_fields task) of
        (tasks', result) \<Rightarrow>
          if modified_count result = 0
          then (s\<lparr>tasks := tasks'\<rparr>, Inl (HTTPException 404 ''Task not found''))
          else (s\<lparr>tasks := tasks', cache := redis_delete (cache s) ''tasks''\<rparr>,
                Inr (JObject [(''message'', JString ''Task updated'')])))"

definition delete_task :: "state \<Rightarrow> string \<Rightarrow> state \<times> (error + json)" where
  "delete_task s task_id =
     (case delete_one task_field (tasks s) [(''_id'', BString task_id)] of
        (tasks', deleted_count) \<Rightarrow>
          if deleted_count = 0
          then (s\<lparr>tasks := tasks'\<rparr>, Inl (HTTPException 404 ''Task not found''))
          else (s\<lparr>tasks := tasks', cache := redis_delete (cache s) ''tasks''\<rparr>,
                Inr (JObject [(''message'', JString ''Task deleted'')])))"

subsection \<open>Tokens\<close>

text \<open>
  A token is a signed set of claims. The text of a token is either the compact
  serialisation of a header (its algorithm), a payload and a signature, or a string
  that is none; the model keeps the three parts instead of their encoding. The keyed
  hash behind \<^verbatim>\<open>HS256\<close> is a parameter \<open>hmac\<close>: from the key, the algorithm and
  the payload to the signature. Time is in seconds since the epoch, as the token
  library compares it.
\<close>

record claims =
  sub :: "string option"
  exp :: "nat option"

datatype token = Compact string claims string | Malformed string

datatype jwt_error =
  DecodeError | InvalidAlgorithmError | InvalidSignatureError | ExpiredSignatureError

type_synonym mac = "string \<Rightarrow> string \<Rightarrow> claims \<Rightarrow> string"

definition jwt_encode :: "mac \<Rightarrow> claims \<Rightarrow> string \<Rightarrow> string \<Rightarrow> token" where
  "jwt_encode hmac payload key algorithm = Compact algorithm payload (hmac key algorithm payload)"

text \<open>
  \<^verbatim>\<open>jwt.decode\<close> checks, in this order: the shape of the token, that its algorithm
  is one of those allowed, the signature, and the expiry when the payload has one. A
  token is expired from the second of its expiry on.
\<close>

fun jwt_decode :: "mac \<Rightarrow> token \<Rightarrow> string \<Rightarrow> string list \<Rightarrow> nat \<Rightarrow> jwt_error + claims" where
  "jwt_decode hmac (Malformed text) key algorithms now = Inl DecodeError"
| "jwt_decode hmac (Compact alg payload signature) key algorithms now =
     (if alg \<notin> set algorithms then Inl InvalidAlgorithmError
      else if signature \<noteq> hmac key alg payload then Inl InvalidSignatureError
      else (case exp payload of
              None \<Rightarrow> Inr payload
            | Some e \<Rightarrow> if e \<le> now then Inl ExpiredSignatureError else Inr payload))"

definition SECRET_KEY :: string where
  "SECRET_KEY = ''your-secret-key''"

definition ALGORITHM :: string where
  "ALGORITHM = ''HS256''"

definition ACCESS_TOKEN_EXPIRE_HOURS :: nat where
  "ACCESS_TOKEN_EXPIRE_HOURS = 1"

definition create_jwt_token :: "mac \<Rightarrow> string \<Rightarrow> nat \<Rightarrow> token" where
  "create_jwt_token hmac username_arg now =
     (let token_data = \<lparr>sub = Some username_arg,
                         exp = Some (now + ACCESS_TOKEN_EXPIRE_HOURS * 3600)\<rparr>
      in jwt_encode hmac token_data SECRET_KEY ALGORITHM)"

text \<open>
  \<^verbatim>\<open>if not token\<close> holds for a missing cookie and for an empty one. The handler of
  \<^verbatim>\<open>ExpiredSignatureError\<close> comes first; every other error of the library is an
  \<^verbatim>\<open>InvalidTokenError\<close>.
\<close>

definition get_current_user :: "mac \<Rightarrow> (string \<rightharpoonup> token) \<Rightarrow> nat \<Rightarrow> error + string" where
  "get_current_user hmac request_cookies now =
     (case request_cookies ''access_token'' of
        None \<Rightarrow> Inl (HTTPException 401 ''Not authenticated'')
      | Some token \<Rightarrow>
          if token = Malformed [] then Inl (HTTPException 401 ''Not authenticated'')
          else (case jwt_decode hmac token SECRET_KEY [ALGORITHM] now of
                  Inl ExpiredSignatureError \<Rightarrow> Inl (HTTPException 401 ''Token expired'')
                | Inl _ \<Rightarrow> Inl (HTTPException 401 ''Invalid token'')
                | Inr payload \<Rightarrow>
                    (case sub payload of
                       None \<Rightarrow> Inl (HTTPException 401 ''Invalid token'')
                     | Some username_claim \<Rightarrow> Inr username_claim)))"

subsection \<open>The user handlers\<close>

text \<open>
  A handler that takes a \<^verbatim>\<open>Response\<close> parameter returns, with its own result, the
  cookie operations it performed on that parameter. The password library is two
  parameters: \<open>pwd_hash\<close> from a salt and a password to the hash, \<open>None\<close> where
  the library raises (on a password with a NUL byte, on an oversize password), and
  \<open>pwd_verify\<close> from a password and a stored hash to the verdict, \<open>None\<close> where
  the library raises. \<^verbatim>\<open>register\<close> hashes the password first, before it looks the
  user name up, and catches nothing.
\<close>

datatype cookie_op =
    SetCookie string token bool nat string
  | DeleteCookie string

record token_content =
  message :: string
  access_token :: token

record JSONResponse =
  content :: token_content
  status_code :: nat

definition access_cookie :: "token \<Rightarrow> cookie_op" where
  "access_cookie token =
     SetCookie ''access_token'' token True (ACCESS_TOKEN_EXPIRE_HOURS * 3600) ''Lax''"

definition register ::
  "(string \<Rightarrow> string \<Rightarrow> string option) \<Rightarrow> mac \<Rightarrow> state \<Rightarrow> nat \<Rightarrow> string \<Rightarrow> User
    \<Rightarrow> state \<times> (error + cookie_op list \<times> JSONResponse)"
where
  "register pwd_hash hmac s now salt user =
     (case pwd_hash salt (password user) of
        None \<Rightarrow> (s, Inl (Unhandled ''PasswordValueError''))
      | Some hashed \<Rightarrow>
          (let user = user\<lparr>password := hashed\<rparr>;
               existing_user =
                 find_one user_field (users s) [(''username'', BString (username user))]
           in if existing_user \<noteq> None
              then (s, Inl (HTTPException 400 ''Username already exists''))
              else
                (let inserted = \<lparr>username = username user, password = password user,
                                 u_id = BObjectId (next_oid s)\<rparr>;
                     s' = s\<lparr>users := users s @ [inserted], next_oid := next_oid s + 1\<rparr>;
                     token = create_jwt_token hmac (username user) now
                 in (s', Inr ([access_cookie token],
                              \<lparr>content = \<lparr>message = ''User registered successfully'',
                                           access_token = token\<rparr>,
                               status_code = 201\<rparr>)))))"

definition login ::
  "(string \<Rightarrow> string \<Rightarrow> bool option) \<Rightarrow> mac \<Rightarrow> state \<Rightarrow> nat \<Rightarrow> User
    \<Rightarrow> state \<times> (error + cookie_op list \<times> JSONResponse)"
where
  "login pwd_verify hmac s now user =
     (case find_one user_field (users s) [(''username'', BString (username user))] of
        None \<Rightarrow> (s, Inl (HTTPException 401 ''Invalid credentials''))
      | Some db_user \<Rightarrow>
          (case pwd_verify (password user) (password db_user) of
             None \<Rightarrow> (s, Inl (Unhandled ''UnknownHashError''))
           | Some False \<Rightarrow> (s, Inl (HTTPException 401 ''Invalid credentials''))
           | Some True \<Rightarrow>
               (let token = create_jwt_token hmac (username user) now
                in (s, Inr ([access_cookie token],
                            \<lparr>content = \<lparr>message = ''User logged in successfully'',
                                         access_token = token\<rparr>,
                             status_code = 201\<rparr>)))))"

definition logout :: "cookie_op list \<times> json" where
  "logout = ([DeleteCookie ''access_token''],
             JObject [(''message'', JString ''Logged out successfully'')])"

definition get_user :: "state \<Rightarrow> string \<Rightarrow> json" where
  "get_user s username_arg =
     (case find_one user_field (users s) [(''username'', BString username_arg)] of
        Some user \<Rightarrow>
          JObject [(''message'', JString (''Hello '' @ username_arg @ '', welcome back!''))]
      | None \<Rightarrow> JObject [(''message'', JString ''User not found'')])"

text \<open>
  The greeting ends in the four characters U+00F0, U+0178, U+0161 and U+20AC of the
  source text, here in UTF-8.
\<close>

definition root :: json where
  "root = JObject [(''Hello World'',
                    JString (''Welcome to FastAPI Task Manager! '' @
                             [CHR 0xC3, CHR 0xB0, CHR 0xC5, CHR 0xB8, CHR 0xC5, CHR 0xA1,
                              CHR 0xE2, CHR 0x82, CHR 0xAC]))]"

subsection \<open>The application\<close>

text \<open>
  The routes of the application. A request is the route it names, with the body, the
  path and the query parameters the framework has validated against the schema, and
  its cookies. The application hands each handler the parameters its signature
  declares: the cookies reach \<^verbatim>\<open>get_current_user\<close> only, which \<^verbatim>\<open>get_user\<close>
  depends on. \<open>env\<close> is what a handler reads from its environment while it serves
  a request: the clock (in seconds for the cache and the tokens, as a date for
  \<^verbatim>\<open>created_at\<close>) and the salt the password library draws. The reply is what
  the handler returned and what it did to its \<^verbatim>\<open>Response\<close> parameter; how the
  framework turns the two into the bytes of a response (the response model of
  \<^verbatim>\<open>get_tasks\<close>, the headers it sends) is not part of the model.
\<close>

datatype endpoint =
    PostRegister User
  | PostLogin User
  | PostLogout
  | PostTasks TaskSchema
  | GetTasks "StatusEnum option" "PriorityEnum option"
  | PutTask string TaskSchema
  | DeleteTask string
  | GetUser
  | GetRoot

record request =
  endpoint :: endpoint
  cookies :: "string \<rightharpoonup> token"

record env =
  epoch :: nat
  utcnow :: datetime
  salt :: string

record libs =
  hmac_lib :: mac
  pwd_hash_lib :: "string \<Rightarrow> string \<Rightarrow> string option"
  pwd_verify_lib :: "string \<Rightarrow> string \<Rightarrow> bool option"
  json_loads_lib :: "string \<Rightarrow> json option"

datatype returned = Dict json | Response JSONResponse

type_synonym reply = "cookie_op list \<times> returned"

definition with_reply ::
  "('a \<Rightarrow> reply) \<Rightarrow> state \<times> (error + 'a) \<Rightarrow> state \<times> (error + reply)"
where
  "with_reply f out = (fst out, map_sum id f (snd out))"

definition app :: "libs \<Rightarrow> state \<Rightarrow> env \<Rightarrow> request \<Rightarrow> state \<times> (error + reply)" where
  "app L s e r =
     (case endpoint r of
        PostRegister user \<Rightarrow>
          with_reply (\<lambda>(ops, resp). (ops, Response resp))
            (register (pwd_hash_lib L) (hmac_lib L) s (epoch e) (salt e) user)
      | PostLogin user \<Rightarrow>
          with_reply (\<lambda>(ops, resp). (ops, Response resp))
            (login (pwd_verify_lib L) (hmac_lib L) s (epoch e) user)
      | PostLogout \<Rightarrow> (s, Inr (fst logout, Dict (snd logout)))
      | PostTasks task \<Rightarrow>
          (case create_task s (utcnow e) task of (s', body) \<Rightarrow> (s', Inr ([], Dict body)))
      | GetTasks status_arg priority_arg \<Rightarrow>
          with_reply (\<lambda>body. ([], Dict body))
            (get_tasks (json_loads_lib L) s (epoch e) status_arg priority_arg)
      | PutTask task_id task \<Rightarrow>
          with_reply (\<lambda>body. ([], Dict body)) (update_task s task_id task)
      | DeleteTask task_id \<Rightarrow>
          with_reply (\<lambda>body. ([], Dict body)) (delete_task s task_id)
      | GetUser \<Rightarrow>
          (case get_current_user (hmac_lib L) (cookies r) (epoch e) of
             Inl err \<Rightarrow> (s, Inl err)
           | Inr username_arg \<Rightarrow> (s, Inr ([], Dict (get_user s username_arg))))
      | GetRoot \<Rightarrow> (s, Inr ([], Dict root)))"

fun task_route :: "endpoint \<Rightarrow> bool" where
  "task_route (PostTasks task) = True"
| "task_route (GetTasks status_arg priority_arg) = True"
| "task_route (PutTask task_id task) = True"
| "task_route (DeleteTask task_id) = True"
| "task_route other = False"

text \<open>A run of the application: the requests of a trace, served one after the other.\<close>

fun run :: "libs \<Rightarrow> state \<Rightarrow> (env \<times> request) list \<Rightarrow> state" where
  "run L s [] = s"
| "run L s (er # trace) = run L (fst (app L s (fst er) (snd er))) trace"

subsection \<open>Sample inputs\<close>

text \<open>
  The task of the specification's end-to-end example, a later state of it, a clock
  reading, and a collection that holds one document whose \<^verbatim>\<open>_id\<close> is a string (as a
  document written by another client of the database may be), with a live cache entry.
  Further down: a user and the same user with a password the library refuses, the
  state after the user registered, and the state after two tasks were created.
\<close>

definition buy_milk :: TaskSchema where
  "buy_milk = \<lparr>title = ''Buy milk'', description = None, status = pending, priority = low\<rparr>"

definition milk_bought :: TaskSchema where
  "milk_bought = \<lparr>title = ''Buy milk'', description = None, status = completed, priority = low\<rparr>"

definition noon :: datetime where
  "noon = \<lparr>year = 2024, month = 1, day = 15, hour = 12, minute = 0, second = 0,
           microsecond = 123456\<rparr>"

definition milk_doc :: "bson \<Rightarrow> task_doc" where
  "milk_doc i = \<lparr>title = ''Buy milk'', description = None, status = pending, priority = low,
                 t_id = i, created_at = bson_date noon\<rparr>"

text \<open>
  Stand-ins for the libraries, enough to run the handlers on the sample inputs, and an
  environment for a request served at a given second.
\<close>

definition sample_libs :: libs where
  "sample_libs =
     \<lparr>hmac_lib = (\<lambda>key alg payload. key @ alg),
      pwd_hash_lib = (\<lambda>salt_arg secret.
         if CHR 0x00 \<in> set secret \<or> 4096 < length secret then None
         else Some (''$2b$'' @ salt_arg @ rev secret)),
      pwd_verify_lib = (\<lambda>secret hash. Some (drop (length hash - length secret) hash = rev secret)),
      json_loads_lib = (\<lambda>text. if text = ''[]'' then Some (JArray []) else None)\<rparr>"

definition at_second :: "nat \<Rightarrow> env" where
  "at_second t = \<lparr>epoch = t, utcnow = noon, salt = ''salt''\<rparr>"

definition alice :: User where
  "alice = \<lparr>username = ''alice'', password = ''pw''\<rparr>"

definition alice_nul :: User where
  "alice_nul = \<lparr>username = ''alice'', password = [CHR ''p'', CHR 0x00, CHR ''w'']\<rparr>"

definition registered_state :: state where
  "registered_state =
     fst (register (pwd_hash_lib sample_libs) (hmac_lib sample_libs) init_state 1000 ''salt'' alice)"

definition call_mum :: TaskSchema where
  \<open>call_mum = \<lparr>title = ''Call "mum"'', description = Some ''at 5'', status = pending,
                priority = high\<rparr>\<close>

definition half_past :: datetime where
  "half_past = \<lparr>year = 2024, month = 1, day = 15, hour = 12, minute = 30, second = 5,
                microsecond = 0\<rparr>"

definition two_tasks :: state where
  "two_tasks = fst (create_task (fst (create_task init_state noon buy_milk)) half_past call_mum)"

definition imported_state :: state where
  "imported_state =
     \<lparr>users = [], tasks = [milk_doc (BString ''t1'')],
      cache = [''tasks'' \<mapsto> (''[]'', Some 1060)], next_oid = 0\<rparr>"

text \<open>
  Traces for the sample runs: a listing that fills the cache between two creations, a
  registration, and requests that follow a creation.
\<close>

definition listing_trace :: "(env \<times> request) list" where
  "listing_trace =
     [(at_second 1000, \<lparr>endpoint = PostTasks buy_milk, cookies = Map.empty\<rparr>),
      (at_second 1010, \<lparr>endpoint = GetTasks (Some completed) None, cookies = Map.empty\<rparr>),
      (at_second 1020, \<lparr>endpoint = PostTasks milk_bought, cookies = Map.empty\<rparr>)]"

definition before_trace :: "(env \<times> request) list" where
  "before_trace = [(at_second 900, \<lparr>endpoint = PostRegister alice, cookies = Map.empty\<rparr>)]"

definition after_trace :: "(env \<times> request) list" where
  "after_trace =
     [(at_second 1010, \<lparr>endpoint = GetTasks None None, cookies = Map.empty\<rparr>),
      (at_second 1020, \<lparr>endpoint = DeleteTask ''000000000000000000000001'', cookies = Map.empty\<rparr>)]"

subsection \<open>Invariants of a run\<close>

text \<open>
  What holds of every state the application reaches from the empty database and
  cache: the \<^verbatim>\<open>_id\<close> of every task is an ObjectId, since \<^verbatim>\<open>create_task\<close> is the
  only writer of the collection; and the cache entry \<^verbatim>\<open>tasks\<close>, where there is
  one, is not the empty string, since \<^verbatim>\<open>get_tasks\<close> is its only writer and writes
  the serialisation of a list.
\<close>

definition oid_only :: "state \<Rightarrow> bool" where
  "oid_only s \<longleftrightarrow> (\<forall>d \<in> set (tasks s). \<exists>n. t_id d = BObjectId n)"

definition cache_filled :: "state \<Rightarrow> bool" where
  "cache_filled s \<longleftrightarrow> (\<forall>v e. cache s ''tasks'' = Some (v, e) \<longrightarrow> v \<noteq> [])"

section \<open>Properties of the collaborators\<close>

lemma digits_small: "n < b \<Longrightarrow> digits b n = [digit_char n]"
  by (simp add: digits.simps)

lemma py_str_oid0: "py_str (BObjectId 0) = ''000000000000000000000000''"
  by (simp add: digits_small zfill_def digit_char_def eval_nat_numeral)

lemma status_value_inj: "status_value a = status_value b \<longleftrightarrow> a = b"
  by (cases a; cases b) simp_all

lemma priority_value_inj: "priority_value a = priority_value b \<longleftrightarrow> a = b"
  by (cases a; cases b) simp_all

lemma update_one_unmodified:
  "update_one field ds q upd = (ds', r) \<Longrightarrow> modified_count r = 0 \<Longrightarrow> ds' = ds"
  by (induction ds arbitrary: ds' r) (auto split: if_splits prod.splits)

lemma update_one_no_match:
  "\<forall>d \<in> set ds. \<not> matches field q d \<Longrightarrow>
   update_one field ds q upd = (ds, \<lparr>matched_count = 0, modified_count = 0\<rparr>)"
  by (induction ds) auto

lemma delete_one_zero:
  "delete_one field ds q = (ds', n) \<Longrightarrow> n = 0 \<Longrightarrow> ds' = ds"
  by (induction ds arbitrary: ds' n) (auto split: if_splits prod.splits)

lemma delete_one_no_match:
  "\<forall>d \<in> set ds. \<not> matches field q d \<Longrightarrow> delete_one field ds q = (ds, 0)"
  by (induction ds) auto

lemma matches_build_query:
  "matches task_field (build_query status_arg priority_arg) d \<longleftrightarrow>
     (status_arg = None \<or> status_arg = Some (status d)) \<and>
     (priority_arg = None \<or> priority_arg = Some (priority d))"
  by (auto simp: matches_def build_query_def task_field_def status_value_inj priority_value_inj
      split: option.splits)

lemma matches_id_string_oid:
  "t_id d = BObjectId n \<Longrightarrow> \<not> matches task_field [(''_id'', BString task_id)] d"
  by (simp add: matches_def task_field_def)

lemma redis_get_delete: "redis_get (redis_delete r k) now k = None"
  by (simp add: redis_get_def redis_delete_def)

section \<open>The task handlers\<close>

lemma update_task_failure:
  "update_task s task_id task = (s', Inl e) \<Longrightarrow> e = HTTPException 404 ''Task not found'' \<and> s' = s"
  by (auto simp: update_task_def split: prod.splits if_splits dest: update_one_unmodified)

lemma update_task_success:
  "update_task s task_id task = (s', Inr r) \<Longrightarrow> cache s' = redis_delete (cache s) ''tasks''"
  by (auto simp: update_task_def split: prod.splits if_splits)

lemma delete_task_failure:
  "delete_task s task_id = (s', Inl e) \<Longrightarrow> e = HTTPException 404 ''Task not found'' \<and> s' = s"
  by (auto simp: delete_task_def split: prod.splits if_splits dest: delete_one_zero)

lemma delete_task_success:
  "delete_task s task_id = (s', Inr r) \<Longrightarrow> cache s' = redis_delete (cache s) ''tasks''"
  by (auto simp: delete_task_def split: prod.splits if_splits)

lemmas sample_defs = imported_state_def milk_doc_def milk_bought_def buy_milk_def

lemmas task_eval =
  update_task_def delete_task_def matches_def task_field_def set_fields_def redis_delete_def

lemma imported_cache_live: "redis_get (cache imported_state) 1000 ''tasks'' = Some ''[]''"
  by (simp add: imported_state_def redis_get_def)

lemma imported_update_known:
  "update_task imported_state ''t1'' milk_bought =
     (imported_state\<lparr>tasks := [(milk_doc (BString ''t1''))\<lparr>status := completed\<rparr>],
                     cache := Map.empty\<rparr>,
      Inr (JObject [(''message'', JString ''Task updated'')]))"
  by (simp add: sample_defs task_eval)

lemma imported_update_unknown:
  "update_task imported_state ''t2'' milk_bought =
     (imported_state, Inl (HTTPException 404 ''Task not found''))"
  by (simp add: sample_defs task_eval)

lemma imported_delete_known:
  "delete_task imported_state ''t1'' =
     (imported_state\<lparr>tasks := [], cache := Map.empty\<rparr>,
      Inr (JObject [(''message'', JString ''Task deleted'')]))"
  by (simp add: sample_defs task_eval)

lemma imported_delete_unknown:
  "delete_task imported_state ''t2'' =
     (imported_state, Inl (HTTPException 404 ''Task not found''))"
  by (simp add: sample_defs task_eval)

subsection \<open>C3: when \<^verbatim>\<open>update_task\<close> answers 404\<close>

text \<open>
  C3 says that \<^verbatim>\<open>update_task\<close> fails with 404 exactly when no record has the given
  identifier, and succeeds whenever one has. The handler does otherwise at two inputs.
  A task created through \<^verbatim>\<open>create_task\<close> on the empty database gets the identifier
  \<^verbatim>\<open>000000000000000000000000\<close>; an update of that identifier is answered 404 and the
  task stays as it was, because the query compares the string with an ObjectId. And
  where a document does match the query (the imported document \<^verbatim>\<open>t1\<close>), an update
  that carries the values the document already has is answered 404 too, because the
  handler tests \<^verbatim>\<open>modified_count\<close>.
\<close>

theorem update_task_rejects_existing:
  "create_task init_state noon buy_milk =
     (\<lparr>users = [], tasks = [milk_doc (BObjectId 0)], cache = Map.empty, next_oid = 1\<rparr>,
      JObject [(''message'', JString ''Task created''),
               (''task_id'', JString ''000000000000000000000000'')]) \<and>
   update_task (fst (create_task init_state noon buy_milk)) ''000000000000000000000000'' milk_bought =
     (fst (create_task init_state noon buy_milk), Inl (HTTPException 404 ''Task not found'')) \<and>
   matches task_field [(''_id'', BString ''t1'')] (milk_doc (BString ''t1'')) \<and>
   update_task imported_state ''t1'' buy_milk =
     (imported_state, Inl (HTTPException 404 ''Task not found''))"
  by (simp add: create_task_def update_task_def init_state_def imported_state_def milk_doc_def
      buy_milk_def milk_bought_def matches_def task_field_def set_fields_def py_str_oid0
      del: py_str.simps)

subsection \<open>C4: update and delete invalidate the cache on success only\<close>

text \<open>
  C4: when \<^verbatim>\<open>update_task\<close> or \<^verbatim>\<open>delete_task\<close> succeeds, the state it returns has
  the cache entry \<^verbatim>\<open>tasks\<close> deleted, so that a read of it at any time finds nothing;
  when it fails, the failure is 404 and the cache is the one before the call.
\<close>

theorem update_delete_invalidate:
  "(\<forall>s' r. update_task s task_id task = (s', Inr r) \<longrightarrow>
       cache s' = redis_delete (cache s) ''tasks'' \<and> redis_get (cache s') now ''tasks'' = None) \<and>
   (\<forall>s' e. update_task s task_id task = (s', Inl e) \<longrightarrow>
       e = HTTPException 404 ''Task not found'' \<and> cache s' = cache s) \<and>
   (\<forall>s' r. delete_task s task_id = (s', Inr r) \<longrightarrow>
       cache s' = redis_delete (cache s) ''tasks'' \<and> redis_get (cache s') now ''tasks'' = None) \<and>
   (\<forall>s' e. delete_task s task_id = (s', Inl e) \<longrightarrow>
       e = HTTPException 404 ''Task not found'' \<and> cache s' = cache s)"
  using update_task_failure [of s task_id task] update_task_success [of s task_id task]
    delete_task_failure [of s task_id] delete_task_success [of s task_id]
  by (simp add: redis_get_delete) blast

theorem update_delete_invalidate_witness:
  "redis_get (cache imported_state) 1000 ''tasks'' = Some ''[]'' \<and>
   update_task imported_state ''t1'' milk_bought =
     (imported_state\<lparr>tasks := [(milk_doc (BString ''t1''))\<lparr>status := completed\<rparr>],
                     cache := Map.empty\<rparr>,
      Inr (JObject [(''message'', JString ''Task updated'')])) \<and>
   redis_get (cache (fst (update_task imported_state ''t1'' milk_bought))) 1000 ''tasks'' = None \<and>
   update_task imported_state ''t2'' milk_bought =
     (imported_state, Inl (HTTPException 404 ''Task not found'')) \<and>
   cache (fst (update_task imported_state ''t2'' milk_bought)) = cache imported_state \<and>
   delete_task imported_state ''t1'' =
     (imported_state\<lparr>tasks := [], cache := Map.empty\<rparr>,
      Inr (JObject [(''message'', JString ''Task deleted'')])) \<and>
   redis_get (cache (fst (delete_task imported_state ''t1''))) 1000 ''tasks'' = None \<and>
   delete_task imported_state ''t2'' =
     (imported_state, Inl (HTTPException 404 ''Task not found'')) \<and>
   cache (fst (delete_task imported_state ''t2'')) = cache imported_state"
proof -
  note known = update_delete_invalidate [of imported_state "''t1''" milk_bought 1000]
  note unknown = update_delete_invalidate [of imported_state "''t2''" milk_bought 1000]
  from known imported_update_known
  have a: "redis_get (cache (fst (update_task imported_state ''t1'' milk_bought))) 1000 ''tasks'' = None"
    by (metis fst_conv)
  from unknown imported_update_unknown
  have b: "cache (fst (update_task imported_state ''t2'' milk_bought)) = cache imported_state"
    by (metis fst_conv)
  from known imported_delete_known
  have c: "redis_get (cache (fst (delete_task imported_state ''t1''))) 1000 ''tasks'' = None"
    by (metis fst_conv)
  from unknown imported_delete_unknown
  have d: "cache (fst (delete_task imported_state ''t2'')) = cache imported_state"
    by (metis fst_conv)
  show ?thesis
    using imported_cache_live imported_update_known imported_update_unknown
      imported_delete_known imported_delete_unknown a b c d
    by blast
qed

subsection \<open>C5: \<^verbatim>\<open>create_task\<close> leaves the cache alone\<close>

text \<open>
  C5: the cache after \<^verbatim>\<open>create_task\<close> is the cache before it, whatever it holds.
  So at any time at which the entry \<^verbatim>\<open>tasks\<close> is read as a cached listing, the
  listing served after the creation is the one served before it, and serving it does
  not change the entry either: the new task is not in it.
\<close>

theorem create_task_keeps_cache:
  "cache (fst (create_task s utcnow_arg task)) = cache s \<and>
   (\<forall>now status_arg priority_arg.
      redis_get (cache s) now ''tasks'' \<noteq> None \<and> redis_get (cache s) now ''tasks'' \<noteq> Some [] \<longrightarrow>
      snd (get_tasks json_loads (fst (create_task s utcnow_arg task)) now status_arg priority_arg) =
      snd (get_tasks json_loads s now status_arg priority_arg) \<and>
      cache (fst (get_tasks json_loads (fst (create_task s utcnow_arg task)) now
                    status_arg priority_arg)) = cache s)"
  by (simp add: create_task_def get_tasks_def Let_def)

theorem create_task_keeps_cache_witness:
  "redis_get (cache imported_state) 1000 ''tasks'' = Some ''[]'' \<and>
   snd (get_tasks (\<lambda>x. Some (JArray [])) (fst (create_task imported_state noon buy_milk))
          1000 None None) = Inr (JArray []) \<and>
   tasks (fst (create_task imported_state noon buy_milk)) =
     [milk_doc (BString ''t1''), milk_doc (BObjectId 0)]"
  using create_task_keeps_cache [of imported_state noon buy_milk "\<lambda>x. Some (JArray [])"]
  by (simp add: create_task_def get_tasks_def imported_state_def redis_get_def milk_doc_def
      buy_milk_def)

subsection \<open>C6: the listing on a cache miss\<close>

lemma json_dumps_serialize_task:
  \<open>json_dumps (serialize_task d) =
     ''{"_id": '' @ json_string (py_str (t_id d)) @
     '', "title": '' @ json_string (title d) @
     '', "description": '' @ (case description d of None \<Rightarrow> ''null'' | Some x \<Rightarrow> json_string x) @
     '', "status": '' @ json_string (status_value (status d)) @
     '', "priority": '' @ json_string (priority_value (priority d)) @
     '', "created_at": '' @ json_string (isoformat (created_at d)) @ ''}''\<close>
  by (simp add: serialize_task_def json_string_def json_escape_def split: option.splits)

lemma isoformat_fields:
  "isoformat dt =
     zfill 4 (digits 10 (year dt)) @ ''-'' @ zfill 2 (digits 10 (month dt)) @ ''-'' @
     zfill 2 (digits 10 (day dt)) @ ''T'' @
     zfill 2 (digits 10 (hour dt)) @ '':'' @ zfill 2 (digits 10 (minute dt)) @ '':'' @
     zfill 2 (digits 10 (second dt)) @
     (if microsecond dt = 0 then [] else ''.'' @ zfill 6 (digits 10 (microsecond dt)))"
  by (simp add: isoformat_def isoformat_sep_def)

lemma py_str_oid1: "py_str (BObjectId (Suc 0)) = ''000000000000000000000001''"
  by (simp add: digits_small zfill_def digit_char_def eval_nat_numeral)

lemma two_tasks_state:
  "two_tasks =
     \<lparr>users = [],
      tasks = [milk_doc (BObjectId 0),
               \<lparr>title = title call_mum, description = Some ''at 5'', status = pending,
                priority = high, t_id = BObjectId 1, created_at = half_past\<rparr>],
      cache = Map.empty, next_oid = 2\<rparr>"
  by (simp add: two_tasks_def create_task_def init_state_def milk_doc_def buy_milk_def
      call_mum_def bson_date_def half_past_def)

lemmas text_eval =
  zfill_def digits.simps digit_char_def json_string_def json_escape_def bson_date_def
  py_str_oid0 py_str_oid1

text \<open>
  C6: when the read of the entry \<^verbatim>\<open>tasks\<close> finds nothing the handler takes for a
  value (no live entry, or the empty string), \<^verbatim>\<open>get_tasks\<close> returns the first 100
  at most of the tasks whose status equals the status argument, if there is one, and
  whose priority equals the priority argument, if there is one. Each is returned as
  the object of its six fields, with \<^verbatim>\<open>_id\<close> as its string (24 hexadecimal
  digits for an ObjectId) and \<^verbatim>\<open>created_at\<close> as the text
  \<^verbatim>\<open>YYYY-MM-DDTHH:MM:SS\<close>, followed by the microseconds when there are any. The
  handler stores the JSON text of this result, which is spelled out below, under
  \<^verbatim>\<open>tasks\<close>, where it is read for the next 60 seconds and not after, and changes
  nothing else.
\<close>

theorem get_tasks_miss:
  assumes miss:
    "redis_get (cache s) now ''tasks'' = None \<or> redis_get (cache s) now ''tasks'' = Some []"
  shows
    \<open>let found = take 100 (filter (\<lambda>d. (status_arg = None \<or> status_arg = Some (status d)) \<and>
                                       (priority_arg = None \<or> priority_arg = Some (priority d)))
                                (tasks s));
         date_text = (\<lambda>dt.
            zfill 4 (digits 10 (year dt)) @ ''-'' @ zfill 2 (digits 10 (month dt)) @ ''-'' @
            zfill 2 (digits 10 (day dt)) @ ''T'' @
            zfill 2 (digits 10 (hour dt)) @ '':'' @ zfill 2 (digits 10 (minute dt)) @ '':'' @
            zfill 2 (digits 10 (second dt)) @
            (if microsecond dt = 0 then [] else ''.'' @ zfill 6 (digits 10 (microsecond dt))));
         result = JArray (map (\<lambda>d.
            JObject [(''_id'', JString (py_str (t_id d))),
                     (''title'', JString (title d)),
                     (''description'',
                        (case description d of None \<Rightarrow> JNull | Some x \<Rightarrow> JString x)),
                     (''status'', JString (status_value (status d))),
                     (''priority'', JString (priority_value (priority d))),
                     (''created_at'', JString (date_text (created_at d)))]) found);
         stored = ''['' @ join '', '' (map (\<lambda>d.
            ''{"_id": '' @ json_string (py_str (t_id d)) @
            '', "title": '' @ json_string (title d) @
            '', "description": '' @
               (case description d of None \<Rightarrow> ''null'' | Some x \<Rightarrow> json_string x) @
            '', "status": '' @ json_string (status_value (status d)) @
            '', "priority": '' @ json_string (priority_value (priority d)) @
            '', "created_at": '' @ json_string (date_text (created_at d)) @ ''}'') found) @ '']'';
         s' = s\<lparr>cache := (cache s)(''tasks'' \<mapsto> (stored, Some (now + 60)))\<rparr>
     in get_tasks json_loads s now status_arg priority_arg = (s', Inr result) \<and>
        json_dumps result = stored \<and>
        length found \<le> 100 \<and>
        (\<forall>d \<in> set found. \<forall>n. t_id d = BObjectId n \<longrightarrow> py_str (t_id d) = zfill 24 (digits 16 n)) \<and>
        (\<forall>t. t < now + 60 \<longrightarrow> redis_get (cache s') t ''tasks'' = Some stored) \<and>
        (\<forall>t. now + 60 \<le> t \<longrightarrow> redis_get (cache s') t ''tasks'' = None)\<close>
proof -
  let ?found = "take 100 (filter (\<lambda>d. (status_arg = None \<or> status_arg = Some (status d)) \<and>
                                       (priority_arg = None \<or> priority_arg = Some (priority d)))
                                (tasks s))"
  have flt: "find task_field (tasks s) (build_query status_arg priority_arg) =
        filter (\<lambda>d. (status_arg = None \<or> status_arg = Some (status d)) \<and>
                    (priority_arg = None \<or> priority_arg = Some (priority d))) (tasks s)"
    unfolding find_def by (rule filter_cong) (simp_all add: matches_build_query)
  have run: "get_tasks json_loads s now status_arg priority_arg =
      (s\<lparr>cache := (cache s)(''tasks'' \<mapsto>
            (json_dumps (JArray (map serialize_task ?found)), Some (now + 60)))\<rparr>,
       Inr (JArray (map serialize_task ?found)))"
    using miss by (auto simp: get_tasks_def Let_def redis_setex_def flt to_list_def)
  have objects: "(\<lambda>d.
            JObject [(''_id'', JString (py_str (t_id d))),
                     (''title'', JString (title d)),
                     (''description'',
                        (case description d of None \<Rightarrow> JNull | Some x \<Rightarrow> JString x)),
                     (''status'', JString (status_value (status d))),
                     (''priority'', JString (priority_value (priority d))),
                     (''created_at'', JString
                        (zfill 4 (digits 10 (year (created_at d))) @ ''-'' @
               zfill 2 (digits 10 (month (created_at d))) @ ''-'' @
               zfill 2 (digits 10 (day (created_at d))) @ ''T'' @
               zfill 2 (digits 10 (hour (created_at d))) @ '':'' @
               zfill 2 (digits 10 (minute (created_at d))) @ '':'' @
               zfill 2 (digits 10 (second (created_at d))) @
               (if microsecond (created_at d) = 0 then []
                else ''.'' @ zfill 6 (digits 10 (microsecond (created_at d))))))]) = serialize_task"
    by (rule ext) (simp add: serialize_task_def isoformat_fields)
  have printed: \<open>(\<lambda>d.
            ''{"_id": '' @ json_string (py_str (t_id d)) @
            '', "title": '' @ json_string (title d) @
            '', "description": '' @
               (case description d of None \<Rightarrow> ''null'' | Some x \<Rightarrow> json_string x) @
            '', "status": '' @ json_string (status_value (status d)) @
            '', "priority": '' @ json_string (priority_value (priority d)) @
            '', "created_at": '' @ json_string
               (zfill 4 (digits 10 (year (created_at d))) @ ''-'' @
               zfill 2 (digits 10 (month (created_at d))) @ ''-'' @
               zfill 2 (digits 10 (day (created_at d))) @ ''T'' @
               zfill 2 (digits 10 (hour (created_at d))) @ '':'' @
               zfill 2 (digits 10 (minute (created_at d))) @ '':'' @
               zfill 2 (digits 10 (second (created_at d))) @
               (if microsecond (created_at d) = 0 then []
                else ''.'' @ zfill 6 (digits 10 (microsecond (created_at d))))) @ ''}'') = (\<lambda>d. json_dumps (serialize_task d))\<close>
    by (rule ext) (simp add: json_dumps_serialize_task isoformat_fields)
  show ?thesis
    unfolding Let_def objects printed run
    by (simp add: redis_get_def comp_def)
qed

theorem get_tasks_miss_witness:
  \<open>redis_get (cache two_tasks) 1000 ''tasks'' = None \<and>
   get_tasks (\<lambda>x. None) two_tasks 1000 (Some pending) None =
     (two_tasks\<lparr>cache := [''tasks'' \<mapsto>
        (''[{"_id": "000000000000000000000000", "title": "Buy milk", "description": null, "status": "pending", "priority": "low", "created_at": "2024-01-15T12:00:00.123000"}, {"_id": "000000000000000000000001", "title": "Call '' @ [CHR 0x5C] @ ''"mum'' @ [CHR 0x5C] @ ''"", "description": "at 5", "status": "pending", "priority": "high", "created_at": "2024-01-15T12:30:05"}]'', Some 1060)]\<rparr>,
      Inr (JArray [JObject [(''_id'', JString ''000000000000000000000000''), (''title'', JString ''Buy milk''),
                (''description'', JNull), (''status'', JString ''pending''),
                (''priority'', JString ''low''),
                (''created_at'', JString ''2024-01-15T12:00:00.123000'')],
                   JObject [(''_id'', JString ''000000000000000000000001''), (''title'', JString ''Call "mum"''),
                (''description'', JString ''at 5''), (''status'', JString ''pending''),
                (''priority'', JString ''high''),
                (''created_at'', JString ''2024-01-15T12:30:05'')]])) \<and>
   get_tasks (\<lambda>x. None) two_tasks 1000 None (Some high) =
     (two_tasks\<lparr>cache := [''tasks'' \<mapsto>
        (''[{"_id": "000000000000000000000001", "title": "Call '' @ [CHR 0x5C] @ ''"mum'' @ [CHR 0x5C] @ ''"", "description": "at 5", "status": "pending", "priority": "high", "created_at": "2024-01-15T12:30:05"}]'', Some 1060)]\<rparr>,
      Inr (JArray [JObject [(''_id'', JString ''000000000000000000000001''), (''title'', JString ''Call "mum"''),
                (''description'', JString ''at 5''), (''status'', JString ''pending''),
                (''priority'', JString ''high''),
                (''created_at'', JString ''2024-01-15T12:30:05'')]])) \<and>
   get_tasks (\<lambda>x. None) two_tasks 1000 (Some completed) None =
     (two_tasks\<lparr>cache := [''tasks'' \<mapsto> (''[]'', Some 1060)]\<rparr>, Inr (JArray []))\<close>
proof -
  have miss: "redis_get (cache two_tasks) 1000 ''tasks'' = None \<or>
      redis_get (cache two_tasks) 1000 ''tasks'' = Some []"
    by (simp add: two_tasks_state redis_get_def)
  note listing = get_tasks_miss [OF miss, of _ _ "\<lambda>x. None", unfolded Let_def]
  have both: \<open>get_tasks (\<lambda>x. None) two_tasks 1000 (Some pending) None =
     (two_tasks\<lparr>cache := [''tasks'' \<mapsto>
        (''[{"_id": "000000000000000000000000", "title": "Buy milk", "description": null, "status": "pending", "priority": "low", "created_at": "2024-01-15T12:00:00.123000"}, {"_id": "000000000000000000000001", "title": "Call '' @ [CHR 0x5C] @ ''"mum'' @ [CHR 0x5C] @ ''"", "description": "at 5", "status": "pending", "priority": "high", "created_at": "2024-01-15T12:30:05"}]'', Some 1060)]\<rparr>,
      Inr (JArray [JObject [(''_id'', JString ''000000000000000000000000''), (''title'', JString ''Buy milk''),
                (''description'', JNull), (''status'', JString ''pending''),
                (''priority'', JString ''low''),
                (''created_at'', JString ''2024-01-15T12:00:00.123000'')],
                   JObject [(''_id'', JString ''000000000000000000000001''), (''title'', JString ''Call "mum"''),
                (''description'', JString ''at 5''), (''status'', JString ''pending''),
                (''priority'', JString ''high''),
                (''created_at'', JString ''2024-01-15T12:30:05'')]]))\<close>
    using listing [of "Some pending" None, THEN conjunct1]
    by (simp add: two_tasks_state milk_doc_def call_mum_def noon_def half_past_def text_eval
        del: py_str.simps)
  have urgent: \<open>get_tasks (\<lambda>x. None) two_tasks 1000 None (Some high) =
     (two_tasks\<lparr>cache := [''tasks'' \<mapsto>
        (''[{"_id": "000000000000000000000001", "title": "Call '' @ [CHR 0x5C] @ ''"mum'' @ [CHR 0x5C] @ ''"", "description": "at 5", "status": "pending", "priority": "high", "created_at": "2024-01-15T12:30:05"}]'', Some 1060)]\<rparr>,
      Inr (JArray [JObject [(''_id'', JString ''000000000000000000000001''), (''title'', JString ''Call "mum"''),
                (''description'', JString ''at 5''), (''status'', JString ''pending''),
                (''priority'', JString ''high''),
                (''created_at'', JString ''2024-01-15T12:30:05'')]]))\<close>
    using listing [of None "Some high", THEN conjunct1]
    by (simp add: two_tasks_state milk_doc_def call_mum_def noon_def half_past_def text_eval
        del: py_str.simps)
  have none: "get_tasks (\<lambda>x. None) two_tasks 1000 (Some completed) None =
     (two_tasks\<lparr>cache := [''tasks'' \<mapsto> (''[]'', Some 1060)]\<rparr>, Inr (JArray []))"
    using listing [of "Some completed" None, THEN conjunct1]
    by (simp add: two_tasks_state milk_doc_def call_mum_def)
  show ?thesis
    using both urgent none by (simp add: two_tasks_state redis_get_def)
qed

section \<open>The user handlers\<close>

lemma find_one_username:
  "find_one user_field us [(''username'', BString u)] = None \<longleftrightarrow> u \<notin> username ` set us"
  by (auto simp: find_one_def find_None_iff matches_def user_field_def)

lemma find_one_fresh_append:
  "u \<notin> username ` set us \<Longrightarrow> username d = u \<Longrightarrow>
   find_one user_field (us @ [d]) [(''username'', BString u)] = Some d"
  by (induction us) (auto simp: find_one_def matches_def user_field_def)

lemma register_unhashed:
  "pwd_hash salt_arg (password user) = None \<Longrightarrow>
   register pwd_hash hmac s now salt_arg user = (s, Inl (Unhandled ''PasswordValueError''))"
  by (simp add: register_def)

lemma register_conflict_iff:
  "pwd_hash salt_arg (password user) = Some hashed \<Longrightarrow>
   snd (register pwd_hash hmac s now salt_arg user) =
     Inl (HTTPException 400 ''Username already exists'')
     \<longleftrightarrow> username user \<in> username ` set (users s)"
  using find_one_username [of "users s" "username user"]
  by (auto simp: register_def Let_def)

lemma register_success:
  "pwd_hash salt_arg (password user) = Some hashed \<Longrightarrow>
   username user \<notin> username ` set (users s) \<Longrightarrow>
   register pwd_hash hmac s now salt_arg user =
     (s\<lparr>users := users s @ [\<lparr>username = username user, password = hashed,
                               u_id = BObjectId (next_oid s)\<rparr>],
        next_oid := next_oid s + 1\<rparr>,
      Inr ([access_cookie (create_jwt_token hmac (username user) now)],
           \<lparr>content = \<lparr>message = ''User registered successfully'',
                        access_token = create_jwt_token hmac (username user) now\<rparr>,
            status_code = 201\<rparr>))"
  using find_one_username [of "users s" "username user"]
  by (simp add: register_def Let_def)

lemma registered_state_users:
  "users registered_state =
     [\<lparr>username = ''alice'', password = ''$2b$saltwp'', u_id = BObjectId 0\<rparr>]"
  by (simp add: registered_state_def register_def Let_def init_state_def find_one_def
      sample_libs_def alice_def)

lemma login_success_iff:
  "find_one user_field (users s) [(''username'', BString (username user))] = Some d \<Longrightarrow>
   (\<exists>out. snd (login pwd_verify hmac s now user) = Inr out) \<longleftrightarrow>
   pwd_verify (password user) (password d) = Some True"
  by (auto simp: login_def Let_def split: option.splits bool.splits)

subsection \<open>C7: a token is accepted until it expires\<close>

text \<open>
  C7: for every user name, the token \<^verbatim>\<open>create_jwt_token\<close> issues expires 3600
  seconds after it was issued. Presented in the cookie \<^verbatim>\<open>access_token\<close>, it makes
  \<^verbatim>\<open>get_current_user\<close> return that user name at every time before the expiry, and
  fail with 401 \<^verbatim>\<open>Token expired\<close> at every time after it. The same token with any
  other signature makes it fail with 401 \<^verbatim>\<open>Invalid token\<close>, at any time.
\<close>

theorem token_roundtrip:
  assumes cookie: "request_cookies ''access_token'' = Some (create_jwt_token hmac u issued)"
  shows
    "create_jwt_token hmac u issued =
       Compact ALGORITHM \<lparr>sub = Some u, exp = Some (issued + 3600)\<rparr>
         (hmac SECRET_KEY ALGORITHM \<lparr>sub = Some u, exp = Some (issued + 3600)\<rparr>) \<and>
     (now < issued + 3600 \<longrightarrow> get_current_user hmac request_cookies now = Inr u) \<and>
     (issued + 3600 < now \<longrightarrow>
        get_current_user hmac request_cookies now = Inl (HTTPException 401 ''Token expired'')) \<and>
     (\<forall>alg payload signature forged.
        create_jwt_token hmac u issued = Compact alg payload signature \<and> forged \<noteq> signature \<longrightarrow>
        get_current_user hmac (request_cookies(''access_token'' \<mapsto> Compact alg payload forged)) now =
          Inl (HTTPException 401 ''Invalid token''))"
  using cookie
  by (auto simp: get_current_user_def create_jwt_token_def jwt_encode_def Let_def
      ACCESS_TOKEN_EXPIRE_HOURS_def)

theorem token_roundtrip_witness:
  "get_current_user (\<lambda>k a c. k @ a) [''access_token'' \<mapsto> create_jwt_token (\<lambda>k a c. k @ a) ''alice'' 1000] 2000
     = Inr ''alice'' \<and>
   get_current_user (\<lambda>k a c. k @ a) [''access_token'' \<mapsto> create_jwt_token (\<lambda>k a c. k @ a) ''alice'' 1000] 5000
     = Inl (HTTPException 401 ''Token expired'') \<and>
   create_jwt_token (\<lambda>k a c. k @ a) ''alice'' 1000 =
     Compact ''HS256'' \<lparr>sub = Some ''alice'', exp = Some 4600\<rparr> ''your-secret-keyHS256'' \<and>
   get_current_user (\<lambda>k a c. k @ a)
     [''access_token'' \<mapsto> Compact ''HS256'' \<lparr>sub = Some ''alice'', exp = Some 4600\<rparr> ''forged''] 2000
     = Inl (HTTPException 401 ''Invalid token'')"
proof -
  let ?mac = "\<lambda>(k::string) (a::string) (c::claims). k @ a"
  let ?jar = "[''access_token'' \<mapsto> create_jwt_token ?mac ''alice'' 1000]"
  have tok: "create_jwt_token ?mac ''alice'' 1000 =
     Compact ''HS256'' \<lparr>sub = Some ''alice'', exp = Some 4600\<rparr> ''your-secret-keyHS256''"
    by (simp add: create_jwt_token_def jwt_encode_def ACCESS_TOKEN_EXPIRE_HOURS_def
        SECRET_KEY_def ALGORITHM_def)
  have jar: "?jar ''access_token'' = Some (create_jwt_token ?mac ''alice'' 1000)" by simp
  note early = token_roundtrip [where request_cookies = "?jar" and hmac = "?mac"
      and u = "''alice''" and issued = 1000 and now = 2000, OF jar]
  note late = token_roundtrip [where request_cookies = "?jar" and hmac = "?mac"
      and u = "''alice''" and issued = 1000 and now = 5000, OF jar]
  have a: "get_current_user ?mac ?jar 2000 = Inr ''alice''"
    using early [THEN conjunct2, THEN conjunct1] by simp
  have b: "get_current_user ?mac ?jar 5000 = Inl (HTTPException 401 ''Token expired'')"
    using late [THEN conjunct2, THEN conjunct2, THEN conjunct1] by simp
  have c: "get_current_user ?mac
     (?jar(''access_token'' \<mapsto> Compact ''HS256'' \<lparr>sub = Some ''alice'', exp = Some 4600\<rparr> ''forged'')) 2000
       = Inl (HTTPException 401 ''Invalid token'')"
    using early [THEN conjunct2, THEN conjunct2, THEN conjunct2] tok by simp
  show ?thesis using a b c tok by simp
qed

subsection \<open>C8: a user name registers once\<close>

text \<open>
  C8 says that \<^verbatim>\<open>register\<close> fails with 400 exactly when the user name exists. It
  does not where the password library refuses the password: the handler hashes the
  password before it looks the user name up, so for the registered user \<^verbatim>\<open>alice\<close> and
  a password with a NUL byte the call fails with the error of the library, not with
  400, although the user name exists.
\<close>

theorem register_conflict_counterexample:
  "username alice_nul \<in> username ` set (users registered_state) \<and>
   snd (register (pwd_hash_lib sample_libs) (hmac_lib sample_libs) registered_state 2000
          ''salt'' alice_nul) = Inl (Unhandled ''PasswordValueError'') \<and>
   \<not> (snd (register (pwd_hash_lib sample_libs) (hmac_lib sample_libs) registered_state 2000
             ''salt'' alice_nul) = Inl (HTTPException 400 ''Username already exists'')
        \<longleftrightarrow> username alice_nul \<in> username ` set (users registered_state))"
proof -
  have refused: "pwd_hash_lib sample_libs ''salt'' (password alice_nul) = None"
    by (simp add: sample_libs_def alice_nul_def)
  have known: "username alice_nul \<in> username ` set (users registered_state)"
    by (simp add: registered_state_users alice_nul_def)
  show ?thesis
    using known
      register_unhashed [of "pwd_hash_lib sample_libs" "''salt''" alice_nul
        "hmac_lib sample_libs" registered_state 2000, OF refused]
    by simp
qed

text \<open>
  C8, amended: when the password library refuses the password, \<^verbatim>\<open>register\<close> fails
  with the error of the library and leaves the state as it is, whether the user name
  exists or not. When the library hashes the password, \<^verbatim>\<open>register\<close> fails with 400
  \<^verbatim>\<open>Username already exists\<close> exactly when a document of \<^verbatim>\<open>users\<close> has the user
  name, and it fails in no other way; when no document has it, the call answers 201
  with a token for the user name, and every later registration of the same user name
  with a password the library hashes fails with 400 on the state it leaves. Nothing is
  said of the cookie.
\<close>

theorem register_conflict_when_hashed:
  fixes user :: User
  shows
  "(pwd_hash salt_arg (password user) = None \<longrightarrow>
      register pwd_hash hmac s now salt_arg user = (s, Inl (Unhandled ''PasswordValueError''))) \<and>
   (pwd_hash salt_arg (password user) \<noteq> None \<longrightarrow>
      (snd (register pwd_hash hmac s now salt_arg user) =
         Inl (HTTPException 400 ''Username already exists'')
       \<longleftrightarrow> username user \<in> username ` set (users s)) \<and>
      (\<forall>err. snd (register pwd_hash hmac s now salt_arg user) = Inl err \<longrightarrow>
         err = HTTPException 400 ''Username already exists'') \<and>
      (username user \<notin> username ` set (users s) \<longrightarrow>
         (\<exists>ops. snd (register pwd_hash hmac s now salt_arg user) =
            Inr (ops, \<lparr>content = \<lparr>message = ''User registered successfully'',
                                   access_token = create_jwt_token hmac (username user) now\<rparr>,
                       status_code = 201\<rparr>)) \<and>
         (\<forall>now' salt' password'.
            pwd_hash salt' password' \<noteq> None \<longrightarrow>
            snd (register pwd_hash hmac (fst (register pwd_hash hmac s now salt_arg user)) now'
                   salt' \<lparr>username = username user, password = password'\<rparr>) =
              Inl (HTTPException 400 ''Username already exists''))))"
proof (intro conjI impI allI)
  assume "pwd_hash salt_arg (password user) = None"
  then show "register pwd_hash hmac s now salt_arg user =
      (s, Inl (Unhandled ''PasswordValueError''))"
    by (simp add: register_def)
next
  assume "pwd_hash salt_arg (password user) \<noteq> None"
  then obtain hashed where "pwd_hash salt_arg (password user) = Some hashed" by blast
  from register_conflict_iff [of pwd_hash salt_arg user hashed hmac s now, OF this]
  show "snd (register pwd_hash hmac s now salt_arg user) =
         Inl (HTTPException 400 ''Username already exists'')
       \<longleftrightarrow> username user \<in> username ` set (users s)" .
next
  fix err
  assume "pwd_hash salt_arg (password user) \<noteq> None"
    and "snd (register pwd_hash hmac s now salt_arg user) = Inl err"
  then show "err = HTTPException 400 ''Username already exists''"
    by (auto simp: register_def Let_def split: if_splits)
next
  assume "pwd_hash salt_arg (password user) \<noteq> None"
    and fresh: "username user \<notin> username ` set (users s)"
  then obtain hashed where "pwd_hash salt_arg (password user) = Some hashed" by blast
  from register_success [of pwd_hash salt_arg user hashed s hmac now, OF this fresh]
  show "\<exists>ops. snd (register pwd_hash hmac s now salt_arg user) =
            Inr (ops, \<lparr>content = \<lparr>message = ''User registered successfully'',
                                   access_token = create_jwt_token hmac (username user) now\<rparr>,
                       status_code = 201\<rparr>)"
    by simp
next
  fix now' salt' password'
  assume "pwd_hash salt_arg (password user) \<noteq> None"
    and fresh: "username user \<notin> username ` set (users s)"
    and "pwd_hash salt' password' \<noteq> None"
  then obtain hashed hashed' where first: "pwd_hash salt_arg (password user) = Some hashed"
    and second: "pwd_hash salt' password' = Some hashed'" by blast
  let ?again = "\<lparr>username = username user, password = password'\<rparr>"
  have "pwd_hash salt' (password ?again) = Some hashed'" using second by simp
  from register_conflict_iff [of pwd_hash salt' ?again hashed' hmac
      "fst (register pwd_hash hmac s now salt_arg user)" now', OF this]
  show "snd (register pwd_hash hmac (fst (register pwd_hash hmac s now salt_arg user)) now'
                   salt' ?again) =
              Inl (HTTPException 400 ''Username already exists'')"
    by (simp add: register_success [of pwd_hash salt_arg user hashed s hmac now, OF first fresh])
qed

theorem register_conflict_when_hashed_witness:
  "pwd_hash_lib sample_libs ''salt'' (password alice) \<noteq> None \<and>
   username alice \<notin> username ` set (users init_state) \<and>
   (\<exists>ops. snd (register (pwd_hash_lib sample_libs) (hmac_lib sample_libs) init_state 1000
                  ''salt'' alice) =
      Inr (ops, \<lparr>content = \<lparr>message = ''User registered successfully'',
                             access_token = create_jwt_token (hmac_lib sample_libs) ''alice'' 1000\<rparr>,
                 status_code = 201\<rparr>)) \<and>
   snd (register (pwd_hash_lib sample_libs) (hmac_lib sample_libs) registered_state 2000
          ''pepper'' \<lparr>username = ''alice'', password = ''other''\<rparr>) =
     Inl (HTTPException 400 ''Username already exists'') \<and>
   pwd_hash_lib sample_libs ''salt'' (password alice_nul) = None \<and>
   register (pwd_hash_lib sample_libs) (hmac_lib sample_libs) init_state 1000 ''salt'' alice_nul =
     (init_state, Inl (Unhandled ''PasswordValueError''))"
proof -
  have hashed: "pwd_hash_lib sample_libs ''salt'' (password alice) \<noteq> None"
    by (simp add: sample_libs_def alice_def)
  have other: "pwd_hash_lib sample_libs ''pepper'' ''other'' \<noteq> None"
    by (simp add: sample_libs_def)
  have fresh: "username alice \<notin> username ` set (users init_state)"
    by (simp add: init_state_def)
  have refused: "pwd_hash_lib sample_libs ''salt'' (password alice_nul) = None"
    by (simp add: sample_libs_def alice_nul_def)
  have name: "username alice = ''alice''" by (simp add: alice_def)
  note first = register_conflict_when_hashed
    [of "pwd_hash_lib sample_libs" "''salt''" alice "hmac_lib sample_libs" init_state 1000]
  note nul = register_conflict_when_hashed
    [of "pwd_hash_lib sample_libs" "''salt''" alice_nul "hmac_lib sample_libs" init_state 1000]
  from first hashed fresh
  have a: "\<exists>ops. snd (register (pwd_hash_lib sample_libs) (hmac_lib sample_libs) init_state 1000
                  ''salt'' alice) =
      Inr (ops, \<lparr>content = \<lparr>message = ''User registered successfully'',
                             access_token = create_jwt_token (hmac_lib sample_libs) ''alice'' 1000\<rparr>,
                 status_code = 201\<rparr>)"
    unfolding name by blast
  from first hashed fresh other
  have b: "snd (register (pwd_hash_lib sample_libs) (hmac_lib sample_libs) registered_state 2000
          ''pepper'' \<lparr>username = ''alice'', password = ''other''\<rparr>) =
     Inl (HTTPException 400 ''Username already exists'')"
    unfolding name registered_state_def by blast
  from nul refused
  have c: "register (pwd_hash_lib sample_libs) (hmac_lib sample_libs) init_state 1000 ''salt''
      alice_nul = (init_state, Inl (Unhandled ''PasswordValueError''))"
    by blast
  show ?thesis using hashed fresh a b refused c by blast
qed

subsection \<open>C9: the stored password is the hash\<close>

text \<open>
  C9: a successful \<^verbatim>\<open>register\<close> changes the state by one document of \<^verbatim>\<open>users\<close>,
  whose password field is the hash the password library returned for the password (and
  by the counter of ObjectIds); where that hash differs from the password, no document
  holding the password itself for this user name is added. \<^verbatim>\<open>login\<close> with the same
  user name then succeeds exactly when the password library verifies the supplied
  password against that stored hash.
\<close>

theorem register_stores_hash:
  fixes user :: User
  assumes ok: "register pwd_hash hmac s now salt_arg user = (s', Inr out)"
  shows
    "\<exists>hashed.
       pwd_hash salt_arg (password user) = Some hashed \<and>
       s' = s\<lparr>users := users s @ [\<lparr>username = username user, password = hashed,
                                    u_id = BObjectId (next_oid s)\<rparr>],
              next_oid := next_oid s + 1\<rparr> \<and>
       find_one user_field (users s') [(''username'', BString (username user))] =
         Some \<lparr>username = username user, password = hashed, u_id = BObjectId (next_oid s)\<rparr> \<and>
       (hashed \<noteq> password user \<longrightarrow>
          (\<forall>i. \<lparr>username = username user, password = password user, u_id = i\<rparr>
                 \<in> set (users s') \<longrightarrow>
               \<lparr>username = username user, password = password user, u_id = i\<rparr>
                 \<in> set (users s))) \<and>
       (\<forall>supplied now'.
          (\<exists>out'. snd (login pwd_verify hmac s' now'
                          \<lparr>username = username user, password = supplied\<rparr>) = Inr out')
          \<longleftrightarrow> pwd_verify supplied hashed = Some True)"
proof -
  from ok obtain hashed where hashed: "pwd_hash salt_arg (password user) = Some hashed"
    by (cases "pwd_hash salt_arg (password user)") (auto simp: register_def)
  have fresh: "username user \<notin> username ` set (users s)"
    using ok register_conflict_iff [of pwd_hash salt_arg user hashed hmac s now, OF hashed]
    by auto
  let ?d = "\<lparr>username = username user, password = hashed, u_id = BObjectId (next_oid s)\<rparr>"
  have s': "s' = s\<lparr>users := users s @ [?d], next_oid := next_oid s + 1\<rparr>"
    using ok register_success [of pwd_hash salt_arg user hashed s hmac now, OF hashed fresh]
    by simp
  have found: "find_one user_field (users s') [(''username'', BString (username user))] = Some ?d"
    using find_one_fresh_append [OF fresh, of ?d] by (simp add: s')
  have login: "(\<exists>out'. snd (login pwd_verify hmac s' now'
                          \<lparr>username = username user, password = supplied\<rparr>) = Inr out')
        \<longleftrightarrow> pwd_verify supplied hashed = Some True"
    for supplied now'
    using login_success_iff [of s' "\<lparr>username = username user, password = supplied\<rparr>" ?d
        pwd_verify hmac now'] found
    by simp
  have kept: "hashed \<noteq> password user \<longrightarrow>
          (\<forall>i. \<lparr>username = username user, password = password user, u_id = i\<rparr>
                 \<in> set (users s') \<longrightarrow>
               \<lparr>username = username user, password = password user, u_id = i\<rparr>
                 \<in> set (users s))"
    by (auto simp: s')
  show ?thesis
    using hashed s' found kept login by blast
qed

theorem register_stores_hash_witness:
  "register (pwd_hash_lib sample_libs) (hmac_lib sample_libs) init_state 1000 ''salt'' alice =
     (\<lparr>users = [\<lparr>username = ''alice'', password = ''$2b$saltwp'', u_id = BObjectId 0\<rparr>],
       tasks = [], cache = Map.empty, next_oid = 1\<rparr>,
      Inr ([access_cookie (create_jwt_token (hmac_lib sample_libs) ''alice'' 1000)],
           \<lparr>content = \<lparr>message = ''User registered successfully'',
                        access_token = create_jwt_token (hmac_lib sample_libs) ''alice'' 1000\<rparr>,
            status_code = 201\<rparr>)) \<and>
   (\<exists>out'. snd (login (pwd_verify_lib sample_libs) (hmac_lib sample_libs)
                  \<lparr>users = [\<lparr>username = ''alice'', password = ''$2b$saltwp'', u_id = BObjectId 0\<rparr>],
                    tasks = [], cache = Map.empty, next_oid = 1\<rparr>
                  2000 \<lparr>username = ''alice'', password = ''pw''\<rparr>) = Inr out') \<and>
   \<not> (\<exists>out'. snd (login (pwd_verify_lib sample_libs) (hmac_lib sample_libs)
                  \<lparr>users = [\<lparr>username = ''alice'', password = ''$2b$saltwp'', u_id = BObjectId 0\<rparr>],
                    tasks = [], cache = Map.empty, next_oid = 1\<rparr>
                  2000 \<lparr>username = ''alice'', password = ''guess''\<rparr>) = Inr out')"
proof -
  let ?s' = "\<lparr>users = [\<lparr>username = ''alice'', password = ''$2b$saltwp'', u_id = BObjectId 0\<rparr>],
       tasks = [], cache = Map.empty, next_oid = 1\<rparr>"
  have ok: "register (pwd_hash_lib sample_libs) (hmac_lib sample_libs) init_state 1000 ''salt'' alice =
     (?s', Inr ([access_cookie (create_jwt_token (hmac_lib sample_libs) ''alice'' 1000)],
           \<lparr>content = \<lparr>message = ''User registered successfully'',
                        access_token = create_jwt_token (hmac_lib sample_libs) ''alice'' 1000\<rparr>,
            status_code = 201\<rparr>))"
    by (simp add: register_def Let_def init_state_def find_one_def sample_libs_def alice_def)
  have hashed: "pwd_hash_lib sample_libs ''salt'' (password alice) = Some ''$2b$saltwp''"
    by (simp add: sample_libs_def alice_def)
  have right: "pwd_verify_lib sample_libs ''pw'' ''$2b$saltwp'' = Some True"
    by (simp add: sample_libs_def)
  have wrong: "pwd_verify_lib sample_libs ''guess'' ''$2b$saltwp'' \<noteq> Some True"
    by (simp add: sample_libs_def)
  have name: "username alice = ''alice''" by (simp add: alice_def)
  from register_stores_hash [OF ok, of "pwd_verify_lib sample_libs"]
  obtain stored where stored: "pwd_hash_lib sample_libs ''salt'' (password alice) = Some stored"
    and logs: "\<forall>supplied now'.
          (\<exists>out'. snd (login (pwd_verify_lib sample_libs) (hmac_lib sample_libs) ?s' now'
                          \<lparr>username = username alice, password = supplied\<rparr>) = Inr out')
          \<longleftrightarrow> pwd_verify_lib sample_libs supplied stored = Some True"
    by blast
  from stored hashed have "stored = ''$2b$saltwp''" by simp
  with logs have iff: "(\<exists>out'. snd (login (pwd_verify_lib sample_libs) (hmac_lib sample_libs) ?s' now'
                          \<lparr>username = ''alice'', password = supplied\<rparr>) = Inr out')
          \<longleftrightarrow> pwd_verify_lib sample_libs supplied ''$2b$saltwp'' = Some True"
    for supplied now'
    unfolding name by blast
  show ?thesis using ok iff [of 2000 "''pw''"] iff [of 2000 "''guess''"] right wrong by blast
qed

section \<open>Runs of the application\<close>

lemma oid_only_no_match:
  assumes "oid_only s"
  shows "\<forall>d \<in> set (tasks s). \<not> matches task_field [(''_id'', BString task_id)] d"
proof
  fix d assume "d \<in> set (tasks s)"
  with assms obtain n where "t_id d = BObjectId n" by (auto simp: oid_only_def)
  then show "\<not> matches task_field [(''_id'', BString task_id)] d"
    by (rule matches_id_string_oid)
qed

lemma oid_only_update:
  "oid_only s \<Longrightarrow> update_task s task_id task = (s, Inl (HTTPException 404 ''Task not found''))"
  using update_one_no_match [OF oid_only_no_match, of s task_id "set_fields task"]
  by (simp add: update_task_def)

lemma oid_only_delete:
  "oid_only s \<Longrightarrow> delete_task s task_id = (s, Inl (HTTPException 404 ''Task not found''))"
  using delete_one_no_match [OF oid_only_no_match, of s task_id]
  by (simp add: delete_task_def)

lemma get_tasks_tasks: "tasks (fst (get_tasks jl s now a b)) = tasks s"
  by (simp add: get_tasks_def Let_def)

lemma register_tasks_cache:
  "tasks (fst (register h m s now sa u)) = tasks s \<and> cache (fst (register h m s now sa u)) = cache s"
  by (simp add: register_def Let_def split: option.splits)

lemma login_state: "fst (login v m s now u) = s"
  by (simp add: login_def Let_def split: option.splits bool.splits)

lemma get_tasks_cache_filled: "cache_filled s \<Longrightarrow> cache_filled (fst (get_tasks jl s now a b))"
  by (auto simp: get_tasks_def Let_def cache_filled_def redis_setex_def)

lemma app_tasks_grow:
  assumes "oid_only s"
  shows "\<exists>ys. tasks (fst (app L s e r)) = tasks s @ ys \<and> oid_only (fst (app L s e r))"
proof (cases "endpoint r")
  case (PostTasks task)
  then show ?thesis using assms
    by (auto simp: app_def with_reply_def create_task_def Let_def oid_only_def)
next
  case (PutTask task_id task)
  then show ?thesis using assms oid_only_update [OF assms, of task_id task]
    by (simp add: app_def with_reply_def)
next
  case (DeleteTask task_id)
  then show ?thesis using assms oid_only_delete [OF assms, of task_id]
    by (simp add: app_def with_reply_def)
next
  case (GetTasks a b)
  then show ?thesis using assms
    by (simp add: app_def with_reply_def get_tasks_tasks oid_only_def)
next
  case (PostRegister u)
  then show ?thesis using assms
    by (simp add: app_def with_reply_def register_tasks_cache oid_only_def)
next
  case (PostLogin u)
  then show ?thesis using assms
    by (simp add: app_def with_reply_def login_state)
next
  case PostLogout then show ?thesis using assms by (simp add: app_def)
next
  case GetUser then show ?thesis using assms by (simp add: app_def split: sum.splits)
next
  case GetRoot then show ?thesis using assms by (simp add: app_def)
qed

lemma run_tasks_grow:
  "oid_only s \<Longrightarrow> \<exists>ys. tasks (run L s trace) = tasks s @ ys \<and> oid_only (run L s trace)"
proof (induction trace arbitrary: s)
  case Nil
  then show ?case by simp
next
  case (Cons er trace)
  from app_tasks_grow [OF Cons.prems, of L "fst er" "snd er"]
  obtain ys where ys: "tasks (fst (app L s (fst er) (snd er))) = tasks s @ ys"
    and inv: "oid_only (fst (app L s (fst er) (snd er)))" by blast
  from Cons.IH [OF inv] obtain zs where
    "tasks (run L (fst (app L s (fst er) (snd er))) trace) = tasks (fst (app L s (fst er) (snd er))) @ zs"
    and "oid_only (run L (fst (app L s (fst er) (snd er))) trace)" by blast
  then show ?case using ys by simp
qed

lemma oid_only_init: "oid_only init_state"
  by (simp add: oid_only_def init_state_def)

lemma oid_only_create: "oid_only s \<Longrightarrow> oid_only (fst (create_task s dt task))"
  by (auto simp: oid_only_def create_task_def Let_def)

lemma app_cache_filled:
  assumes "cache_filled s"
  shows "cache_filled (fst (app L s e r))"
proof (cases "endpoint r")
  case (PostTasks task)
  then show ?thesis using assms
    by (auto simp: app_def create_task_def Let_def cache_filled_def)
next
  case (PutTask task_id task)
  then show ?thesis using assms
    by (auto simp: app_def with_reply_def update_task_def cache_filled_def redis_delete_def split: prod.splits)
next
  case (DeleteTask task_id)
  then show ?thesis using assms
    by (auto simp: app_def with_reply_def delete_task_def cache_filled_def redis_delete_def split: prod.splits)
next
  case (GetTasks a b)
  then show ?thesis using assms by (simp add: app_def with_reply_def get_tasks_cache_filled)
next
  case (PostRegister u)
  then show ?thesis using assms
    by (simp add: app_def with_reply_def register_tasks_cache cache_filled_def)
next
  case (PostLogin u)
  then show ?thesis using assms by (simp add: app_def with_reply_def login_state)
next
  case PostLogout then show ?thesis using assms by (simp add: app_def)
next
  case GetUser then show ?thesis using assms by (simp add: app_def split: sum.splits)
next
  case GetRoot then show ?thesis using assms by (simp add: app_def)
qed

lemma run_cache_filled: "cache_filled s \<Longrightarrow> cache_filled (run L s trace)"
  by (induction trace arbitrary: s) (simp_all add: app_cache_filled)

lemma cache_filled_init: "cache_filled init_state"
  by (simp add: cache_filled_def init_state_def)

lemma cache_filled_get: "cache_filled s \<Longrightarrow> redis_get (cache s) now ''tasks'' \<noteq> Some []"
  by (auto simp: cache_filled_def redis_get_def split: option.splits prod.splits if_splits)

lemma listing_trace_cache:
  "cache (run sample_libs init_state listing_trace) = [''tasks'' \<mapsto> (''[]'', Some 1070)]"
  by (simp add: listing_trace_def app_def with_reply_def at_second_def create_task_def
      get_tasks_def Let_def init_state_def redis_get_def redis_setex_def buy_milk_def
      milk_bought_def build_query_def find_def to_list_def matches_def task_field_def)

subsection \<open>C2: a cache hit ignores the filters\<close>

text \<open>
  C2: in every state the application reaches, when the read of the cache entry
  \<^verbatim>\<open>tasks\<close> finds a value, \<^verbatim>\<open>get_tasks\<close> returns what \<^verbatim>\<open>json.loads\<close> makes of
  that value and leaves the state as it is, whatever the status and priority
  arguments; so two calls with different arguments return the same.
\<close>

theorem cache_hit_ignores_filters:
  assumes hit: "redis_get (cache (run L init_state trace)) now ''tasks'' = Some cached"
  shows
    "get_tasks json_loads (run L init_state trace) now status_arg priority_arg =
       (run L init_state trace,
        case json_loads cached of None \<Rightarrow> Inl (Unhandled ''JSONDecodeError'') | Some v \<Rightarrow> Inr v) \<and>
     get_tasks json_loads (run L init_state trace) now status_arg priority_arg =
       get_tasks json_loads (run L init_state trace) now status_arg' priority_arg'"
proof -
  have "cache_filled (run L init_state trace)"
    by (rule run_cache_filled [OF cache_filled_init])
  then have "cached \<noteq> []"
    using hit cache_filled_get [of "run L init_state trace" now] by auto
  with hit show ?thesis
    by (simp add: get_tasks_def Let_def)
qed

theorem cache_hit_ignores_filters_witness:
  "redis_get (cache (run sample_libs init_state listing_trace)) 1030 ''tasks'' = Some ''[]'' \<and>
   get_tasks (json_loads_lib sample_libs) (run sample_libs init_state listing_trace) 1030
       (Some pending) None =
     (run sample_libs init_state listing_trace, Inr (JArray [])) \<and>
   get_tasks (json_loads_lib sample_libs) (run sample_libs init_state listing_trace) 1030
       (Some pending) None =
   get_tasks (json_loads_lib sample_libs) (run sample_libs init_state listing_trace) 1030
       (Some completed) (Some low)"
proof -
  have hit: "redis_get (cache (run sample_libs init_state listing_trace)) 1030 ''tasks'' = Some ''[]''"
    by (simp add: listing_trace_cache redis_get_def)
  have loads: "json_loads_lib sample_libs ''[]'' = Some (JArray [])"
    by (simp add: sample_libs_def)
  from cache_hit_ignores_filters [OF hit, of "json_loads_lib sample_libs" "Some pending" None
      "Some completed" "Some low"] hit
  show ?thesis by (auto simp: loads)
qed

subsection \<open>C1: the identifier \<^verbatim>\<open>create_task\<close> returns is never found\<close>

text \<open>
  C1: in every state the application reaches, \<^verbatim>\<open>create_task\<close> inserts the task
  under a fresh ObjectId and returns the \<^verbatim>\<open>str\<close> of that ObjectId. The query of
  \<^verbatim>\<open>update_task\<close> and \<^verbatim>\<open>delete_task\<close> matches a document only if its \<^verbatim>\<open>_id\<close>
  is the string of the path. So after any further requests, an update or a delete with
  the returned identifier fails with 404 \<^verbatim>\<open>Task not found\<close> and leaves the state as
  it is, with the inserted task still in the collection.
\<close>

theorem created_id_never_found:
  "let s = run L init_state before;
       inserted = \<lparr>title = title task, description = description task, status = status task,
                   priority = priority task, t_id = BObjectId (next_oid s),
                   created_at = bson_date utcnow_arg\<rparr>;
       task_id = py_str (BObjectId (next_oid s));
       s' = run L (fst (create_task s utcnow_arg task)) after
   in create_task s utcnow_arg task =
        (s\<lparr>tasks := tasks s @ [inserted], next_oid := next_oid s + 1\<rparr>,
         JObject [(''message'', JString ''Task created''), (''task_id'', JString task_id)]) \<and>
      (\<forall>d. matches task_field [(''_id'', BString task_id)] d \<longleftrightarrow> t_id d = BString task_id) \<and>
      update_task s' task_id task' = (s', Inl (HTTPException 404 ''Task not found'')) \<and>
      delete_task s' task_id = (s', Inl (HTTPException 404 ''Task not found'')) \<and>
      inserted \<in> set (tasks s')"
proof -
  let ?s = "run L init_state before"
  let ?s1 = "fst (create_task ?s utcnow_arg task)"
  let ?s' = "run L ?s1 after"
  have inv: "oid_only ?s"
    using run_tasks_grow [OF oid_only_init, of L before] by blast
  have inv1: "oid_only ?s1" by (rule oid_only_create [OF inv])
  from run_tasks_grow [OF inv1, of L after] obtain ys where
    grow: "tasks ?s' = tasks ?s1 @ ys" and inv': "oid_only ?s'" by blast
  show ?thesis
    using grow oid_only_update [OF inv'] oid_only_delete [OF inv']
    by (simp add: Let_def create_task_def matches_def task_field_def)
qed

theorem created_id_never_found_witness:
  "snd (create_task (run sample_libs init_state before_trace) noon buy_milk) =
     JObject [(''message'', JString ''Task created''),
              (''task_id'', JString ''000000000000000000000001'')] \<and>
   update_task
     (run sample_libs (fst (create_task (run sample_libs init_state before_trace) noon buy_milk))
        after_trace)
     ''000000000000000000000001'' milk_bought =
     (run sample_libs (fst (create_task (run sample_libs init_state before_trace) noon buy_milk))
        after_trace,
      Inl (HTTPException 404 ''Task not found'')) \<and>
   milk_doc (BObjectId 1) \<in> set (tasks
     (run sample_libs (fst (create_task (run sample_libs init_state before_trace) noon buy_milk))
        after_trace))"
proof -
  have oid: "next_oid (run sample_libs init_state before_trace) = 1"
    by (simp add: before_trace_def app_def with_reply_def register_def Let_def init_state_def
        find_one_def alice_def at_second_def sample_libs_def)
  have str: "py_str (BObjectId 1) = ''000000000000000000000001''"
    by (simp add: digits_small zfill_def digit_char_def eval_nat_numeral)
  have doc: "\<lparr>title = title buy_milk, description = description buy_milk, status = status buy_milk,
              priority = priority buy_milk, t_id = BObjectId 1, created_at = bson_date noon\<rparr> =
             milk_doc (BObjectId 1)"
    by (simp add: buy_milk_def milk_doc_def)
  note inst = created_id_never_found
    [of sample_libs before_trace buy_milk noon after_trace milk_bought,
     unfolded Let_def oid str doc]
  from inst show ?thesis by (metis snd_conv)
qed

subsection \<open>C10: only \<^verbatim>\<open>get_user\<close> authenticates\<close>

lemma task_route_cases:
  "task_route ep \<longleftrightarrow>
     (\<exists>task. ep = PostTasks task) \<or> (\<exists>a b. ep = GetTasks a b) \<or>
     (\<exists>i task. ep = PutTask i task) \<or> (\<exists>i. ep = DeleteTask i)"
  by (cases ep) simp_all

lemma get_tasks_not_401: "snd (get_tasks jl s now a b) \<noteq> Inl (HTTPException 401 detail)"
  by (simp add: get_tasks_def Let_def split: option.splits)

lemma update_task_not_401: "snd (update_task s i task) \<noteq> Inl (HTTPException 401 detail)"
  by (simp add: update_task_def split: prod.splits)

lemma delete_task_not_401: "snd (delete_task s i) \<noteq> Inl (HTTPException 401 detail)"
  by (simp add: delete_task_def split: prod.splits)

text \<open>
  C10: a request to any route but \<^verbatim>\<open>GET /user\<close> is served the same, in its reply
  and in the state it leaves, whatever cookies it carries; the four task routes never
  answer 401. \<^verbatim>\<open>GET /user\<close> is served as \<^verbatim>\<open>get_current_user\<close> decides on the
  cookies, and answers 401 \<^verbatim>\<open>Not authenticated\<close> without the cookie.
\<close>

theorem task_routes_unauthenticated:
  "(endpoint r \<noteq> GetUser \<longrightarrow> app L s e (r\<lparr>cookies := jar\<rparr>) = app L s e r) \<and>
   (task_route (endpoint r) \<longrightarrow> snd (app L s e r) \<noteq> Inl (HTTPException 401 detail)) \<and>
   (endpoint r = GetUser \<longrightarrow>
      app L s e r =
        (case get_current_user (hmac_lib L) (cookies r) (epoch e) of
           Inl err \<Rightarrow> (s, Inl err)
         | Inr username_arg \<Rightarrow> (s, Inr ([], Dict (get_user s username_arg))))) \<and>
   (endpoint r = GetUser \<and> cookies r ''access_token'' = None \<longrightarrow>
      app L s e r = (s, Inl (HTTPException 401 ''Not authenticated'')))"
proof (intro conjI impI)
  assume "endpoint r \<noteq> GetUser"
  then show "app L s e (r\<lparr>cookies := jar\<rparr>) = app L s e r"
    by (cases "endpoint r") (simp_all add: app_def)
next
  assume "task_route (endpoint r)"
  then show "snd (app L s e r) \<noteq> Inl (HTTPException 401 detail)"
    using get_tasks_not_401 update_task_not_401 delete_task_not_401
    by (auto simp: task_route_cases app_def with_reply_def map_sum_def split: prod.splits sum.splits)
next
  assume "endpoint r = GetUser"
  then show "app L s e r =
        (case get_current_user (hmac_lib L) (cookies r) (epoch e) of
           Inl err \<Rightarrow> (s, Inl err)
         | Inr username_arg \<Rightarrow> (s, Inr ([], Dict (get_user s username_arg))))"
    by (simp add: app_def)
next
  assume "endpoint r = GetUser \<and> cookies r ''access_token'' = None"
  then show "app L s e r = (s, Inl (HTTPException 401 ''Not authenticated''))"
    by (simp add: app_def get_current_user_def)
qed

theorem task_routes_unauthenticated_witness:
  "app sample_libs init_state (at_second 1000)
       \<lparr>endpoint = PostTasks buy_milk,
        cookies = [''access_token'' \<mapsto> Malformed ''not a token'']\<rparr> =
     app sample_libs init_state (at_second 1000)
       \<lparr>endpoint = PostTasks buy_milk, cookies = Map.empty\<rparr> \<and>
   snd (app sample_libs init_state (at_second 1000)
       \<lparr>endpoint = PostTasks buy_milk, cookies = Map.empty\<rparr>) \<noteq>
     Inl (HTTPException 401 ''Not authenticated'') \<and>
   app sample_libs init_state (at_second 1000) \<lparr>endpoint = GetUser, cookies = Map.empty\<rparr> =
     (init_state, Inl (HTTPException 401 ''Not authenticated''))"
proof -
  let ?r = "\<lparr>endpoint = PostTasks buy_milk, cookies = Map.empty\<rparr>"
  let ?u = "\<lparr>endpoint = GetUser, cookies = Map.empty\<rparr>"
  note task = task_routes_unauthenticated
    [of ?r sample_libs init_state "at_second 1000" "[''access_token'' \<mapsto> Malformed ''not a token'']"
        "''Not authenticated''"]
  note user = task_routes_unauthenticated
    [of ?u sample_libs init_state "at_second 1000" Map.empty "''Not authenticated''"]
  have a: "app sample_libs init_state (at_second 1000)
       \<lparr>endpoint = PostTasks buy_milk,
        cookies = [''access_token'' \<mapsto> Malformed ''not a token'']\<rparr> =
     app sample_libs init_state (at_second 1000) ?r"
    using task by simp
  have b: "snd (app sample_libs init_state (at_second 1000) ?r) \<noteq>
     Inl (HTTPException 401 ''Not authenticated'')"
    using task by simp
  have c: "app sample_libs init_state (at_second 1000) ?u =
     (init_state, Inl (HTTPException 401 ''Not authenticated''))"
    using user by auto
  show ?thesis using a b c by blast
qed

end
